theory Spec2Isabelle
  imports Main
begin

section \<open>JavaScript values\<close>

text \<open>
  The repository holds one class, \<open>API\<close>, in two variants: the desktop-shell variant
  (Tauri; it goes through the \<open>fetch\<close> shim of \<open>backend/fetch.ts\<close>) and the
  standalone-process variant (Bun; it calls the global \<open>fetch\<close>). Both keep their state
  in static fields and talk to the file system, a local HTTP service, remote HTTP services
  and a WebSocket.

  Strings are modelled as \<^typ>\<open>string\<close>, a list of 8-bit code units: the model covers
  texts whose code units are below 256. A value that may be \<open>undefined\<close> at run time is
  an \<^typ>\<open>'a option\<close>, with \<^term>\<open>None\<close> for \<open>undefined\<close>.
\<close>

text \<open>
  A JavaScript number. \<open>Integral i\<close> is the number with the integer value \<open>i\<close>, meant for
  \<open>\<bar>i\<bar> \<le> 2^53\<close>, where a double is exact; \<open>ToNumber s\<close> is the number that unary plus
  yields on the string \<open>s\<close> when \<open>s\<close> is not a plain decimal integer in that range: the
  model does not evaluate it (it may be any number, \<open>NaN\<close> included).
\<close>

datatype js_number = Integral int | NaN | ToNumber string

text \<open>What a \<open>throw\<close> or a rejected promise carries.\<close>

datatype js_error = Error string | TypeError | SyntaxError

text \<open>A property of an object literal: absent, present with the value \<open>undefined\<close>, or defined.\<close>

datatype 'a property = Absent | Undefined | Defined 'a

text \<open>
  What \<open>JSON.parse\<close> gives where the code expects an object: the value \<open>null\<close>, or the
  properties of the value. A property that the value lacks reads as \<open>undefined\<close>; a value
  that is no object (a number, say) has none of the properties that the code reads.
\<close>

datatype 'a answer = Null | Object 'a

subsection \<open>Numbers and strings\<close>

definition is_digit :: "char \<Rightarrow> bool" where
  "is_digit c \<longleftrightarrow> 48 \<le> (of_char c :: nat) \<and> (of_char c :: nat) \<le> 57"

definition digits_value :: "string \<Rightarrow> int" where
  "digits_value ds = foldl (\<lambda>a c. 10 * a + (of_char c - 48)) 0 ds"

text \<open>
  Unary plus on a value that is a string or \<open>undefined\<close> (\<open>+processId\<close>, \<open>+port\<close>):
  \<open>undefined\<close> gives \<open>NaN\<close>, the empty string gives 0, a string of decimal digits gives
  its value; every other string is left to \<open>ToNumber\<close>.
\<close>

definition unary_plus :: "string option \<Rightarrow> js_number" where
  "unary_plus v =
     (case v of
        None \<Rightarrow> NaN
      | Some s \<Rightarrow>
          if s = [] then Integral 0
          else if list_all is_digit s \<and> digits_value s \<le> 2 ^ 53
          then Integral (digits_value s)
          else ToNumber s)"

definition digit_char :: "int \<Rightarrow> char" where
  "digit_char d = ''0123456789'' ! nat d"

function digits_of :: "int \<Rightarrow> string" where
  "digits_of n =
     (if n < 10 then [digit_char n]
      else digits_of (n div 10) @ [digit_char (n mod 10)])"
  by pat_completeness auto
termination
  by (relation "measure nat") auto

definition show_int :: "int \<Rightarrow> string" where
  "show_int i = (if i < 0 then CHR ''-'' # digits_of (- i) else digits_of i)"

text \<open>
  \<open>Number.prototype.toString\<close> and the conversion of a number inside a template literal.
  The rendering of an unevaluated \<open>ToNumber s\<close> is a parameter.
\<close>

definition number_toString :: "(string \<Rightarrow> string) \<Rightarrow> js_number \<Rightarrow> string" where
  "number_toString render n =
     (case n of Integral i \<Rightarrow> show_int i | NaN \<Rightarrow> ''NaN'' | ToNumber s \<Rightarrow> render s)"

text \<open>A string-typed value inside a template literal: \<open>undefined\<close> prints as its name.\<close>

definition template :: "string option \<Rightarrow> string" where
  "template v = (case v of None \<Rightarrow> ''undefined'' | Some s \<Rightarrow> s)"

text \<open>\<open>String.prototype.split\<close> with a one-character separator.\<close>

fun split_str :: "char \<Rightarrow> string \<Rightarrow> string list" where
  "split_str sep [] = [[]]"
| "split_str sep (c # cs) =
     (if c = sep then [] # split_str sep cs
      else (case split_str sep cs of
              [] \<Rightarrow> [[c]]
            | f # fs \<Rightarrow> (c # f) # fs))"

text \<open>Array destructuring: a position beyond the array is \<open>undefined\<close>.\<close>

definition element :: "'a list \<Rightarrow> nat \<Rightarrow> 'a option" where
  "element xs i = (if i < length xs then Some (xs ! i) else None)"

subsection \<open>\<open>btoa\<close>\<close>

definition b64_char :: "nat \<Rightarrow> char" where
  "b64_char n =
     ''ABCDEFGHIJKLMNOPQRSTUVWXYZabcdefghijklmnopqrstuvwxyz0123456789+/'' ! n"

fun btoa :: "string \<Rightarrow> string" where
  "btoa (a # b # c # rest) =
     (let n = of_char a * 65536 + of_char b * 256 + of_char c
      in b64_char (n div 262144) # b64_char (n div 4096 mod 64) #
         b64_char (n div 64 mod 64) # b64_char (n mod 64) # btoa rest)"
| "btoa [a, b] =
     (let n = of_char a * 65536 + of_char b * 256
      in [b64_char (n div 262144), b64_char (n div 4096 mod 64),
          b64_char (n div 64 mod 64), CHR ''=''])"
| "btoa [a] =
     (let n = of_char a * 65536
      in [b64_char (n div 262144), b64_char (n div 4096 mod 64), CHR ''='', CHR ''=''])"
| "btoa [] = []"

subsection \<open>\<open>URLSearchParams\<close>\<close>

text \<open>
  \<open>URLSearchParams.prototype.toString\<close>: the application/x-www-form-urlencoded
  serialisation of the list of pairs. ASCII letters and digits and \<open>* - . _\<close> stay, a
  space becomes \<open>+\<close>, every other code unit is percent-encoded from its UTF-8 bytes.
\<close>

definition hex_digit :: "nat \<Rightarrow> char" where
  "hex_digit n = ''0123456789ABCDEF'' ! n"

definition percent_byte :: "nat \<Rightarrow> string" where
  "percent_byte b = [CHR ''%'', hex_digit (b div 16), hex_digit (b mod 16)]"

definition utf8_bytes :: "char \<Rightarrow> nat list" where
  "utf8_bytes c =
     (let n = (of_char c :: nat)
      in if n < 128 then [n] else [192 + n div 64, 128 + n mod 64])"

definition form_safe :: "char \<Rightarrow> bool" where
  "form_safe c \<longleftrightarrow>
     (let n = (of_char c :: nat)
      in (48 \<le> n \<and> n \<le> 57) \<or> (65 \<le> n \<and> n \<le> 90) \<or> (97 \<le> n \<and> n \<le> 122) \<or>
         c = CHR ''*'' \<or> c = CHR ''-'' \<or> c = CHR ''.'' \<or> c = CHR ''_'')"

definition urlencode_char :: "char \<Rightarrow> string" where
  "urlencode_char c =
     (if c = CHR '' '' then ''+''
      else if form_safe c then [c]
      else concat (map percent_byte (utf8_bytes c)))"

definition urlencode :: "string \<Rightarrow> string" where
  "urlencode s = concat (map urlencode_char s)"

fun join_with :: "string \<Rightarrow> string list \<Rightarrow> string" where
  "join_with sep [] = []"
| "join_with sep [x] = x"
| "join_with sep (x # y # ys) = x @ sep @ join_with sep (y # ys)"

definition URLSearchParams_toString :: "(string \<times> string) list \<Rightarrow> string" where
  "URLSearchParams_toString params =
     join_with ''&'' (map (\<lambda>(k, v). urlencode k @ ''='' @ urlencode v) params)"

subsection \<open>The regular expression of the log scan\<close>

text \<open>
  \<open>text.match(p)\<close> with a string \<open>p\<close> compiles \<open>p\<close> to a regular expression without
  flags and returns the first match, with its capture groups. The pattern of the source
  uses three constructs: a literal character, the dot (any code unit but a line
  terminator) and the lazy capture group \<open>(.+?)\<close>.
\<close>

datatype item = Chr char | Dot | Lazy_group

function compile :: "string \<Rightarrow> item list" where
  "compile p =
     (if p = [] then []
      else if take 5 p = ''(.+?)'' then Lazy_group # compile (drop 5 p)
      else if hd p = CHR ''.'' then Dot # compile (tl p)
      else Chr (hd p) # compile (tl p))"
  by pat_completeness auto
termination
  by (relation "measure length") auto

definition dot :: "char \<Rightarrow> bool" where
  "dot c \<longleftrightarrow> c \<noteq> CHR 0x0A \<and> c \<noteq> CHR 0x0D"

text \<open>
  Backtracking in the order of the language: \<open>match_here\<close> matches the items at the start
  of the text and returns the captures of the first way to do so; a lazy group takes one
  code unit, tries the rest of the pattern, and takes one more only when that fails.
\<close>

fun match_here :: "item list \<Rightarrow> string \<Rightarrow> string list option"
  and lazy :: "item list \<Rightarrow> string \<Rightarrow> string \<Rightarrow> string list option" where
  "match_here [] s = Some []"
| "match_here (Chr c # p) [] = None"
| "match_here (Chr c # p) (x # xs) = (if x = c then match_here p xs else None)"
| "match_here (Dot # p) [] = None"
| "match_here (Dot # p) (x # xs) = (if dot x then match_here p xs else None)"
| "match_here (Lazy_group # p) s = lazy p [] s"
| "lazy p taken [] = None"
| "lazy p taken (x # xs) =
     (if \<not> dot x then None
      else (case match_here p xs of
              Some caps \<Rightarrow> Some ((taken @ [x]) # caps)
            | None \<Rightarrow> lazy p (taken @ [x]) xs))"

text \<open>The first match: the leftmost start position at which the pattern matches.\<close>

fun search :: "item list \<Rightarrow> string \<Rightarrow> string list option" where
  "search p [] = match_here p []"
| "search p (x # xs) =
     (case match_here p (x # xs) of
        Some caps \<Rightarrow> Some caps
      | None \<Rightarrow> search p xs)"

definition string_match :: "string \<Rightarrow> string \<Rightarrow> string list option" where
  "string_match text p = search (compile p) text"

section \<open>Data\<close>

text \<open>
  \<open>APIInfo\<close>: the five values destructured from the split lock file. A position beyond
  the split array is \<open>undefined\<close>, whatever the declared type says.
\<close>

record APIInfo =
  username :: "string option"
  processId :: js_number
  port :: js_number
  password :: "string option"
  protocol :: "string option"

text \<open>
  The response types keep the field names of the source, but for \<open>entitlement_list\<close>
  (\<open>entitlements\<close>), \<open>chat_name\<close>, \<open>chat_region\<close>, \<open>chat_state\<close> (\<open>name\<close>, \<open>region\<close>,
  \<open>state\<close>) and \<open>launch_locale\<close> (\<open>locale\<close>), whose names are taken.

  The cast \<open>as T\<close> checks nothing, so an answer need not have the declared shape: every
  property of an answer is an option, \<open>None\<close> where the answer lacks it, and an answer
  or a session of the list may be \<open>null\<close>. The four properties that \<open>setupClient\<close> copies
  into static fields declared \<open>string\<close> (\<open>accessToken\<close>, \<open>token\<close>, \<open>puuid\<close>, \<open>version\<close>) and
  \<open>productId\<close> are a string where they are present. Inside \<open>launchConfiguration\<close>, which
  the class never reads, a \<open>null\<close> field is a \<^typ>\<open>unit\<close> and a \<open>string | null\<close> field an
  option.
\<close>

typedecl unknown

record EntitlementsTokenResponse =
  accessToken :: "string option"
  entitlement_list :: "unknown list option"
  issuer :: "string option"
  subject :: "string option"
  token :: "string option"

record ChatSessionResponse =
  federated :: "bool option"
  game_name :: "string option"
  game_tag :: "string option"
  loaded :: "bool option"
  chat_name :: "string option"
  pid :: "string option"
  puuid :: "string option"
  chat_region :: "string option"
  resource :: "string option"
  chat_state :: "string option"

record LaunchConfiguration =
  arguments :: "string list"
  executable :: string
  launch_locale :: "string option"
  voiceLocale :: unit
  workingDirectory :: string

record Session =
  exitCode :: "int option"
  exitReason :: "unit option"
  isInternal :: "bool option"
  launchConfiguration :: "LaunchConfiguration option"
  patchlineFullName :: "string option"
  patchlineId :: "string option"
  phase :: "string option"
  productId :: "string option"
  version :: "string option"

text \<open>\<open>SessionsResponse\<close>: an object from keys to sessions, in its enumeration order.\<close>

type_synonym SessionsResponse = "(string \<times> Session answer) list"

type_synonym header_list = "(string \<times> string option) list"

text \<open>
  \<open>RequestOptions\<close> of \<open>backend/fetch.ts\<close>, also the shape of the object literal that the
  request methods hand to \<open>fetch\<close>. An absent \<open>method\<close> (here \<open>http_method\<close>) or \<open>body\<close> reads as \<open>undefined\<close>;
  for \<open>headers\<close> the spread tells an absent property from one that is \<open>undefined\<close>.
\<close>

record RequestOptions =
  http_method :: "string option"
  headers :: "header_list property"
  body :: "string option"

text \<open>The payload of the \<open>fetch\<close> command of the shell, and its answer.\<close>

record invoke_request =
  url :: string
  request_headers :: "header_list option"
  request_method :: string
  request_body :: "string option"

record HttpResponse =
  success :: bool
  status :: int
  response_body :: string
  response_headers :: "(string \<times> string) list"

text \<open>
  The \<open>Response\<close> of the global \<open>fetch\<close> (standalone variant): \<open>ok\<close> holds for a status
  from 200 to 299, \<open>json()\<close> parses the text of the body.
\<close>

record Response =
  response_status :: int
  response_text :: string

definition ok :: "Response \<Rightarrow> bool" where
  "ok r \<longleftrightarrow> 200 \<le> response_status r \<and> response_status r \<le> 299"

datatype WebSocket = WebSocket nat

text \<open>What a call does to the outside, in order: log lines, file accesses, requests.\<close>

datatype event =
    Log_info string
  | Log_error string
  | Fs_exists string
  | Fs_readTextFile string
  | Invoke_fetch invoke_request
  | WebSocket_connect string "(string \<times> string) list"
  | Global_fetch string RequestOptions
  | Console_error string int string

text \<open>
  The static fields of the class; a field not yet assigned is \<open>undefined\<close>. \<open>trace\<close> is
  not a field of the class: it records the events of the calls made so far.
\<close>

record API =
  apiInfo :: "APIInfo option"
  region :: "string option"
  shard :: "string option"
  chatSession :: "ChatSessionResponse answer option"
  entitlements :: "EntitlementsTokenResponse answer option"
  riotSessions :: "SessionsResponse answer option"
  authToken :: "string option"
  playerUuid :: "string option"
  clientVersion :: "string option"
  entitlementToken :: "string option"
  socket :: "WebSocket option"
  trace :: "event list"

text \<open>
  Everything outside the class: the local data directory and the files under it, the
  \<open>fetch\<close> command behind \<open>invoke\<close>, \<open>WebSocket.connect\<close>, the global \<open>fetch\<close> of the
  standalone variant, \<open>JSON.parse\<close> followed by the unchecked cast to the declared
  response type (one parser for each type that \<open>setupClient\<close> reads; it fails where the
  text is not JSON and gives \<open>Null\<close> or the properties of the value otherwise), and the
  rendering of a number that the model does not evaluate.
\<close>

record env =
  localDataDir :: string
  files :: "string \<Rightarrow> string option"
  invoke :: "invoke_request \<Rightarrow> js_error + HttpResponse"
  connect :: "string \<Rightarrow> (string \<times> string) list \<Rightarrow> js_error + WebSocket"
  global_fetch :: "string \<Rightarrow> RequestOptions \<Rightarrow> js_error + Response"
  parse_ChatSession :: "string \<Rightarrow> js_error + ChatSessionResponse answer"
  parse_Sessions :: "string \<Rightarrow> js_error + SessionsResponse answer"
  parse_EntitlementsToken :: "string \<Rightarrow> js_error + EntitlementsTokenResponse answer"
  render_number :: "string \<Rightarrow> string"

definition emit :: "event \<Rightarrow> API \<Rightarrow> API" where
  "emit e s = s\<lparr>trace := trace s @ [e]\<rparr>"

section \<open>Global constants\<close>

definition clientPlatform :: string where
  "clientPlatform = ''ew0KCSJwbGF0Zm9ybVR5cGUiOiAiUEMiLA0KCSJwbGF0Zm9ybU9TIjogIldpbmRvd3MiLA0KCSJwbGF0Zm9ybU9TVmVyc2lvbiI6ICIxMC4wLjE5MDQyLjEuMjU2LjY0Yml0IiwNCgkicGxhdGZvcm1DaGlwc2V0IjogIlVua25vd24iDQp9''"

definition lockFilePath :: "env \<Rightarrow> string" where
  "lockFilePath env = localDataDir env @ ''Riot Games/Riot Client/Config/lockfile''"

definition logFilePath :: "env \<Rightarrow> string" where
  "logFilePath env = localDataDir env @ ''VALORANT/Saved/Logs/ShooterGame.log''"

section \<open>Setup methods (desktop-shell variant)\<close>

definition parseLockFile :: "env \<Rightarrow> API \<Rightarrow> bool \<times> API" where
  "parseLockFile env s =
     (let s1 = emit (Fs_exists (lockFilePath env)) s
      in case files env (lockFilePath env) of
           None \<Rightarrow> (False, emit (Log_info '''lockfile' does not exist. Is VALORANT open?'') s1)
         | Some text \<Rightarrow>
             (let s2 = emit (Fs_readTextFile (lockFilePath env)) s1;
                  fields = split_str CHR '':'' text
              in (True,
                  s2\<lparr>apiInfo := Some
                    \<lparr>username = element fields 0,
                     processId = unary_plus (element fields 1),
                     port = unary_plus (element fields 2),
                     password = element fields 3,
                     protocol = element fields 4\<rparr>\<rparr>)))"

definition parseLogFile :: "env \<Rightarrow> API \<Rightarrow> bool \<times> API" where
  "parseLogFile env s =
     (let s1 = emit (Fs_exists (logFilePath env)) s
      in case files env (logFilePath env) of
           None \<Rightarrow>
             (False, emit (Log_info '''ShooterGame.log' does not exist. Is VALORANT open?'') s1)
         | Some text \<Rightarrow>
             (let s2 = emit (Fs_readTextFile (logFilePath env)) s1
              in case string_match text ''https://glz-(.+?)-1.(.+?).a.pvp.net'' of
                   None \<Rightarrow> (False, emit (Log_error ''Failed to find the region and shard.'') s2)
                 | Some groups \<Rightarrow>
                     (True, s2\<lparr>region := element groups 0, shard := element groups 1\<rparr>)))"

definition connectToSocket :: "env \<Rightarrow> API \<Rightarrow> bool \<times> API" where
  "connectToSocket env s =
     (case apiInfo s of
        None \<Rightarrow> (False, emit (Log_error ''API information is not available.'') s)
      | Some info \<Rightarrow>
          (let s1 = emit (Log_info ''Connecting to local websocket...'') s;
               address = ''wss://127.0.0.1:'' @ number_toString (render_number env) (port info);
               hs = [(''Authorization'', ''Basic '' @ btoa (''riot:'' @ template (password info)))];
               s2 = emit (WebSocket_connect address hs) s1
           in case connect env address hs of
                Inl e \<Rightarrow> (False, s2)
              | Inr sock \<Rightarrow> (True, s2\<lparr>socket := Some sock\<rparr>)))"

section \<open>Request methods (desktop-shell variant)\<close>

text \<open>
  The object literal \<open>{...defaults, ...requestInfo}\<close>: a property of \<open>requestInfo\<close>
  replaces the default of the same name; no \<open>requestInfo\<close> leaves the defaults.
\<close>

definition spread :: "RequestOptions \<Rightarrow> RequestOptions option \<Rightarrow> RequestOptions" where
  "spread defaults requestInfo =
     (case requestInfo of
        None \<Rightarrow> defaults
      | Some r \<Rightarrow>
          \<lparr>http_method = (case http_method r of None \<Rightarrow> http_method defaults | Some m \<Rightarrow> Some m),
           headers = (case headers r of Absent \<Rightarrow> headers defaults | h \<Rightarrow> h),
           body = (case body r of None \<Rightarrow> body defaults | Some b \<Rightarrow> Some b)\<rparr>)"

text \<open>
  \<open>fetch\<close> of \<open>backend/fetch.ts\<close>: one \<open>invoke\<close> of the \<open>fetch\<close> command, with the
  payload \<open>fetch_request\<close>; a rejected \<open>invoke\<close> propagates, an answer without \<open>success\<close>
  throws.
\<close>

definition fetch_request :: "string \<Rightarrow> RequestOptions option \<Rightarrow> invoke_request" where
  "fetch_request address options =
     \<lparr>url = address,
      request_headers =
        (case options of
           None \<Rightarrow> None
         | Some opts \<Rightarrow> (case headers opts of Defined h \<Rightarrow> Some h | _ \<Rightarrow> None)),
      request_method =
        (case (case options of None \<Rightarrow> None | Some opts \<Rightarrow> http_method opts) of
           None \<Rightarrow> ''GET''
         | Some m \<Rightarrow> m),
      request_body = (case options of None \<Rightarrow> None | Some opts \<Rightarrow> body opts)\<rparr>"

definition fetch ::
  "env \<Rightarrow> API \<Rightarrow> string \<Rightarrow> RequestOptions option \<Rightarrow> (js_error + HttpResponse) \<times> API" where
  "fetch env s address options =
     (let request = fetch_request address options;
          s1 = emit (Invoke_fetch request) s
      in case invoke env request of
           Inl e \<Rightarrow> (Inl e, s1)
         | Inr response \<Rightarrow>
             if \<not> success response
             then (Inl (Error ''Unable to complete HTTP request.''), s1)
             else (Inr response, s1))"

text \<open>
  \<open>localRequest<T>\<close>; \<open>parse\<close> stands for \<open>JSON.parse(response.body) as T\<close>. Reading
  \<open>API.apiInfo.protocol\<close> before the lock file was parsed throws a \<open>TypeError\<close>.
\<close>

definition localRequest ::
  "(string \<Rightarrow> js_error + 'a) \<Rightarrow> env \<Rightarrow> API \<Rightarrow> string \<Rightarrow> RequestOptions option
     \<Rightarrow> (js_error + 'a) \<times> API" where
  "localRequest parse env s path requestInfo =
     (case apiInfo s of
        None \<Rightarrow> (Inl TypeError, s)
      | Some info \<Rightarrow>
          (case fetch env s
                  (template (protocol info) @ ''://127.0.0.1:'' @
                   number_toString (render_number env) (port info) @ ''/'' @ path)
                  (Some (spread
                     \<lparr>http_method = None,
                      headers = Defined
                        [(''Authorization'',
                          Some (''Basic '' @ btoa (''riot:'' @ template (password info))))],
                      body = None\<rparr>
                     requestInfo)) of
             (Inl e, s1) \<Rightarrow> (Inl e, s1)
           | (Inr response, s1) \<Rightarrow>
               if status response \<noteq> 200
               then (Inl (Error ''Failed to fetch data.''),
                     emit (Log_error (''Client did not return a good response: '' @
                             show_int (status response) @ '' '' @ response_body response)) s1)
               else (parse (response_body response), s1)))"

record remote_args =
  query :: "string option"

definition remoteRequest ::
  "(string \<Rightarrow> js_error + 'a) \<Rightarrow> env \<Rightarrow> API \<Rightarrow> string \<Rightarrow> RequestOptions option
     \<Rightarrow> remote_args option \<Rightarrow> (js_error + 'a) \<times> API" where
  "remoteRequest parse env s path requestInfo args =
     (let baseUrl =
            (if (case args of None \<Rightarrow> None | Some a \<Rightarrow> query a) = Some ''pd''
             then ''https://pd.'' @ template (shard s) @ ''.a.pvp.net''
             else ''https://glz-'' @ template (region s) @ ''-1.'' @ template (shard s) @
                  ''.a.pvp.net'')
      in case fetch env s (baseUrl @ ''/'' @ path)
                (Some (spread
                   \<lparr>http_method = None,
                    headers = Defined
                      [(''X-Riot-ClientPlatform'', Some clientPlatform),
                       (''X-Riot-ClientVersion'', clientVersion s),
                       (''X-Riot-Entitlements-JWT'', entitlementToken s),
                       (''Authorization'', Some (''Bearer '' @ template (authToken s)))],
                    body = None\<rparr>
                   requestInfo)) of
           (Inl e, s1) \<Rightarrow> (Inl e, s1)
         | (Inr response, s1) \<Rightarrow>
             if status response \<noteq> 200
             then (Inl (Error ''Failed to fetch data.''),
                   emit (Log_error (''Server did not return a good response: '' @
                           show_int (status response) @ '' '' @ response_body response)) s1)
             else (parse (response_body response), s1))"

section \<open>Local API\<close>

definition getEntitlementsToken ::
  "env \<Rightarrow> API \<Rightarrow> (js_error + EntitlementsTokenResponse answer) \<times> API" where
  "getEntitlementsToken env s =
     localRequest (parse_EntitlementsToken env) env s ''entitlements/v1/token'' None"

definition getChatSession ::
  "env \<Rightarrow> API \<Rightarrow> (js_error + ChatSessionResponse answer) \<times> API" where
  "getChatSession env s = localRequest (parse_ChatSession env) env s ''chat/v1/session'' None"

definition getSessions ::
  "env \<Rightarrow> API \<Rightarrow> (js_error + SessionsResponse answer) \<times> API" where
  "getSessions env s =
     localRequest (parse_Sessions env) env s ''product-session/v1/sessions'' None"

definition getHelp ::
  "(string \<Rightarrow> js_error + 'a) \<Rightarrow> env \<Rightarrow> API \<Rightarrow> (js_error + 'a) \<times> API" where
  "getHelp parse env s = localRequest parse env s ''help'' None"

section \<open>Remote API\<close>

text \<open>
  A parameter with a default (\<open>uuid = API.playerUuid\<close>) is an option: \<open>None\<close> is the
  omitted argument.
\<close>

definition getCurrentGame ::
  "(string \<Rightarrow> js_error + 'a) \<Rightarrow> env \<Rightarrow> API \<Rightarrow> string option \<Rightarrow> (js_error + 'a) \<times> API" where
  "getCurrentGame parse env s uuid =
     remoteRequest parse env s
       (''core-game/v1/players/'' @
        template (case uuid of None \<Rightarrow> playerUuid s | Some u \<Rightarrow> Some u))
       None None"

definition getGameData ::
  "(string \<Rightarrow> js_error + 'a) \<Rightarrow> env \<Rightarrow> API \<Rightarrow> string \<Rightarrow> (js_error + 'a) \<times> API" where
  "getGameData parse env s gameId =
     remoteRequest parse env s (''core-game/v1/matches/'' @ gameId) None None"

definition getCurrentPregame ::
  "(string \<Rightarrow> js_error + 'a) \<Rightarrow> env \<Rightarrow> API \<Rightarrow> string option \<Rightarrow> (js_error + 'a) \<times> API" where
  "getCurrentPregame parse env s uuid =
     remoteRequest parse env s
       (''pregame/v1/players/'' @
        template (case uuid of None \<Rightarrow> playerUuid s | Some u \<Rightarrow> Some u))
       None None"

definition getPregameData ::
  "(string \<Rightarrow> js_error + 'a) \<Rightarrow> env \<Rightarrow> API \<Rightarrow> string \<Rightarrow> (js_error + 'a) \<times> API" where
  "getPregameData parse env s pregameId =
     remoteRequest parse env s (''pregame/v1/matches/'' @ pregameId) None None"

record history_args =
  startIndex :: "js_number option"
  endIndex :: "js_number option"
  queue :: "string option"

definition getMatchHistory ::
  "(string \<Rightarrow> js_error + 'a) \<Rightarrow> env \<Rightarrow> API \<Rightarrow> string option \<Rightarrow> history_args option
     \<Rightarrow> (js_error + 'a) \<times> API" where
  "getMatchHistory parse env s uuid args =
     (let params =
            [(''startIndex'',
              (case (case args of None \<Rightarrow> None | Some a \<Rightarrow> startIndex a) of
                 None \<Rightarrow> ''0''
               | Some n \<Rightarrow> number_toString (render_number env) n)),
             (''endIndex'',
              (case (case args of None \<Rightarrow> None | Some a \<Rightarrow> endIndex a) of
                 None \<Rightarrow> ''20''
               | Some n \<Rightarrow> number_toString (render_number env) n)),
             (''queue'',
              (case (case args of None \<Rightarrow> None | Some a \<Rightarrow> queue a) of
                 None \<Rightarrow> ''competitive''
               | Some q \<Rightarrow> q))]
      in remoteRequest parse env s
           (''match-history/v1/history/'' @
            template (case uuid of None \<Rightarrow> playerUuid s | Some u \<Rightarrow> Some u) @
            ''?'' @ URLSearchParams_toString params)
           None (Some \<lparr>query = Some ''pd''\<rparr>))"

definition getMatchData ::
  "(string \<Rightarrow> js_error + 'a) \<Rightarrow> env \<Rightarrow> API \<Rightarrow> string \<Rightarrow> (js_error + 'a) \<times> API" where
  "getMatchData parse env s matchId =
     remoteRequest parse env s (''match-details/v1/matches/'' @ matchId) None
       (Some \<lparr>query = Some ''pd''\<rparr>)"

section \<open>\<open>setupClient\<close> (desktop-shell variant)\<close>

text \<open>\<open>!API.region\<close>: \<open>undefined\<close> and the empty string are falsy.\<close>

definition falsy :: "string option \<Rightarrow> bool" where
  "falsy v \<longleftrightarrow> v = None \<or> v = Some []"

text \<open>
  \<open>Array.prototype.find\<close> with a callback that may throw: the first element for which the
  callback gives \<open>true\<close>; the elements after it are not looked at.
\<close>

fun array_find :: "('a \<Rightarrow> js_error + bool) \<Rightarrow> 'a list \<Rightarrow> js_error + 'a option" where
  "array_find f [] = Inr None"
| "array_find f (x # xs) =
     (case f x of
        Inl e \<Rightarrow> Inl e
      | Inr found \<Rightarrow> if found then Inr (Some x) else array_find f xs)"

text \<open>The callback \<open>session => session.productId == "valorant"\<close>; a \<open>null\<close> session throws.\<close>

definition is_valorant :: "Session answer \<Rightarrow> js_error + bool" where
  "is_valorant session =
     (case session of
        Null \<Rightarrow> Inl TypeError
      | Object properties \<Rightarrow> Inr (productId properties = Some ''valorant''))"

text \<open>
  The method returns \<open>false\<close> where a step reports failure and throws where a local
  request throws or where it reads a property of \<open>null\<close>: \<open>API.entitlements.accessToken\<close>,
  then \<open>API.chatSession.puuid\<close>, then \<open>Object.values(API.riotSessions)\<close> and the callback of
  \<open>find\<close>. The fields assigned before that keep their new values. The derived values
  are read from the snapshots assigned just before.
  \<open>Object.values(API.riotSessions).find(...)\<close> is the first session, in the enumeration
  order of the object, whose \<open>productId\<close> is \<open>"valorant"\<close>.
\<close>

definition setupClient :: "env \<Rightarrow> API \<Rightarrow> (js_error + bool) \<times> API" where
  "setupClient env s0 =
     (let (ok1, s1) = (if apiInfo s0 = None then parseLockFile env s0 else (True, s0))
      in if \<not> ok1 then (Inr False, s1)
         else
           (let (ok2, s2) = (if falsy (region s1) then parseLogFile env s1 else (True, s1))
            in if \<not> ok2 then (Inr False, s2)
               else
                 (case getChatSession env s2 of
                    (Inl e, s3) \<Rightarrow> (Inl e, s3)
                  | (Inr chat, s3) \<Rightarrow>
                 (case getSessions env (s3\<lparr>chatSession := Some chat\<rparr>) of
                    (Inl e, s4) \<Rightarrow> (Inl e, s4)
                  | (Inr sessions, s4) \<Rightarrow>
                 (case getEntitlementsToken env (s4\<lparr>riotSessions := Some sessions\<rparr>) of
                    (Inl e, s5) \<Rightarrow> (Inl e, s5)
                  | (Inr ent, s5) \<Rightarrow>
                 (let s6 = s5\<lparr>entitlements := Some ent\<rparr>
                  in case ent of
                       Null \<Rightarrow> (Inl TypeError, s6)
                     | Object token_answer \<Rightarrow>
                 (let s7 = s6\<lparr>authToken := accessToken token_answer\<rparr>
                  in case chat of
                       Null \<Rightarrow> (Inl TypeError, s7)
                     | Object chat_answer \<Rightarrow>
                 (let s8 = s7\<lparr>playerUuid := puuid chat_answer,
                               entitlementToken := token token_answer\<rparr>
                  in case sessions of
                       Null \<Rightarrow> (Inl TypeError, s8)
                     | Object entries \<Rightarrow>
                 (case array_find is_valorant (map snd entries) of
                    Inl e \<Rightarrow> (Inl e, s8)
                  | Inr found \<Rightarrow>
                 (case found of
                    Some (Object valorantSession) \<Rightarrow>
                      (let (connected, s9) =
                             connectToSocket env
                               (s8\<lparr>clientVersion := version valorantSession\<rparr>)
                       in if \<not> connected
                          then (Inr False,
                                emit (Log_error
                                  ''Failed to connect to the local API socket.'') s9)
                          else (Inr True, emit (Log_info ''API setup is complete!'') s9))
                  | _ \<Rightarrow>
                      (Inr False,
                       emit (Log_info ''VALORANT session not found.'') s8)))))))))))"

section \<open>Request methods of the standalone-process variant\<close>

text \<open>
  The standalone variant calls the global \<open>fetch\<close> and tests \<open>response.ok\<close>; on a bad
  answer it awaits \<open>response.json()\<close> for the log line before it throws, so a body that
  is not JSON makes that parse error the failure.
\<close>

definition remoteRequest_standalone ::
  "(string \<Rightarrow> js_error + 'a) \<Rightarrow> env \<Rightarrow> API \<Rightarrow> string \<Rightarrow> RequestOptions option
     \<Rightarrow> remote_args option \<Rightarrow> (js_error + 'a) \<times> API" where
  "remoteRequest_standalone parse env s path requestInfo args =
     (let baseUrl =
            (if (case args of None \<Rightarrow> None | Some a \<Rightarrow> query a) = Some ''pd''
             then ''https://pd.'' @ template (shard s) @ ''.a.pvp.net''
             else ''https://glz-'' @ template (region s) @ ''-1.'' @ template (shard s) @
                  ''.a.pvp.net'');
          init =
            spread
              \<lparr>http_method = None,
               headers = Defined
                 [(''X-Riot-ClientPlatform'', Some clientPlatform),
                  (''X-Riot-ClientVersion'', clientVersion s),
                  (''X-Riot-Entitlements-JWT'', entitlementToken s),
                  (''Authorization'', Some (''Bearer '' @ template (authToken s)))],
               body = None\<rparr>
              requestInfo;
          s1 = emit (Global_fetch (baseUrl @ ''/'' @ path) init) s
      in case global_fetch env (baseUrl @ ''/'' @ path) init of
           Inl e \<Rightarrow> (Inl e, s1)
         | Inr response \<Rightarrow>
             if \<not> ok response
             then (case parse (response_text response) of
                     Inl e \<Rightarrow> (Inl e, s1)
                   | Inr logged \<Rightarrow>
                       (Inl (Error ''Failed to fetch data.''),
                        emit (Console_error ''Server did not return a good response.''
                                (response_status response) (response_text response)) s1))
             else (parse (response_text response), s1))"

definition getMatchHistory_standalone ::
  "(string \<Rightarrow> js_error + 'a) \<Rightarrow> env \<Rightarrow> API \<Rightarrow> string \<Rightarrow> history_args option
     \<Rightarrow> (js_error + 'a) \<times> API" where
  "getMatchHistory_standalone parse env s uuid args =
     (let params =
            [(''startIndex'',
              (case (case args of None \<Rightarrow> None | Some a \<Rightarrow> startIndex a) of
                 None \<Rightarrow> ''0''
               | Some n \<Rightarrow> number_toString (render_number env) n)),
             (''endIndex'',
              (case (case args of None \<Rightarrow> None | Some a \<Rightarrow> endIndex a) of
                 None \<Rightarrow> ''20''
               | Some n \<Rightarrow> number_toString (render_number env) n)),
             (''queue'',
              (case (case args of None \<Rightarrow> None | Some a \<Rightarrow> queue a) of
                 None \<Rightarrow> ''competitive''
               | Some q \<Rightarrow> q))]
      in remoteRequest_standalone parse env s
           (''match-history/v1/history/'' @ uuid @ ''?'' @ URLSearchParams_toString params)
           None (Some \<lparr>query = Some ''pd''\<rparr>))"

section \<open>Reading a trace\<close>

text \<open>The requests handed to \<open>invoke\<close>, in order.\<close>

fun requests_of :: "event list \<Rightarrow> invoke_request list" where
  "requests_of [] = []"
| "requests_of (Invoke_fetch r # es) = r # requests_of es"
| "requests_of (e # es) = requests_of es"

text \<open>The addresses fetched, by either variant, in order.\<close>

fun fetched_urls :: "event list \<Rightarrow> string list" where
  "fetched_urls [] = []"
| "fetched_urls (Invoke_fetch r # es) = url r # fetched_urls es"
| "fetched_urls (Global_fetch address init # es) = address # fetched_urls es"
| "fetched_urls (e # es) = fetched_urls es"


section \<open>Example states and environments\<close>

definition example_info :: APIInfo where
  "example_info =
     \<lparr>username = Some ''Riot Client'', processId = Integral 1234, port = Integral 54321,
      password = Some ''secret'', protocol = Some ''https''\<rparr>"

definition fresh :: API where
  "fresh =
     \<lparr>apiInfo = None, region = None, shard = None, chatSession = None, entitlements = None,
      riotSessions = None, authToken = None, playerUuid = None, clientVersion = None,
      entitlementToken = None, socket = None, trace = []\<rparr>"

definition resolved :: API where
  "resolved = fresh\<lparr>apiInfo := Some example_info, region := Some ''na'', shard := Some ''na''\<rparr>"

definition example_chat :: ChatSessionResponse where
  "example_chat =
     \<lparr>federated = Some True, game_name = Some ''player'', game_tag = Some ''NA1'',
      loaded = Some True, chat_name = Some ''player'', pid = Some ''p1@na1.pvp.net'',
      puuid = Some ''uuid-1'', chat_region = Some ''na1'', resource = Some ''RC-1'',
      chat_state = Some ''connected''\<rparr>"

definition example_entitlements :: EntitlementsTokenResponse where
  "example_entitlements =
     \<lparr>accessToken = Some ''access-1'', entitlement_list = Some [], issuer = Some ''issuer'',
      subject = Some ''uuid-1'', token = Some ''jwt-1''\<rparr>"

definition riot_client_session :: Session where
  "riot_client_session =
     \<lparr>exitCode = Some 0, exitReason = Some (), isInternal = Some False,
      launchConfiguration =
        Some \<lparr>arguments = [], executable = ''RiotClientServices.exe'', launch_locale = None,
              voiceLocale = (), workingDirectory = ''C:/Riot Games/Riot Client''\<rparr>,
      patchlineFullName = Some ''riot_client'', patchlineId = Some '''', phase = Some ''Idle'',
      productId = Some ''riot_client'', version = Some ''80.0.1''\<rparr>"

definition valorant_session :: Session where
  "valorant_session =
     riot_client_session
       \<lparr>patchlineFullName := Some ''VALORANT'', patchlineId := Some ''live'',
        productId := Some ''valorant'', version := Some ''release-08.07''\<rparr>"

text \<open>
  A machine on which the client runs: both files exist, every request is answered with
  200, the session list holds the launcher and the game. The body \<open>(json)\<close> stands for
  the JSON text of an answer; the parsers of the environment give what it decodes to.
\<close>

definition example_env :: env where
  "example_env =
     \<lparr>localDataDir = ''C:/Local/'',
      files =
        (\<lambda>path.
           if path = ''C:/Local/Riot Games/Riot Client/Config/lockfile''
           then Some ''Riot Client:1234:54321:secret:https''
           else if path = ''C:/Local/VALORANT/Saved/Logs/ShooterGame.log''
           then Some ''Log: https://glz-na-1.na.a.pvp.net/session''
           else None),
      invoke =
        (\<lambda>request. Inr \<lparr>success = True, status = 200, response_body = ''(json)'',
                          response_headers = []\<rparr>),
      connect = (\<lambda>address hs. Inr (WebSocket 1)),
      global_fetch = (\<lambda>address init. Inr \<lparr>response_status = 200, response_text = ''(json)''\<rparr>),
      parse_ChatSession = (\<lambda>text. Inr (Object example_chat)),
      parse_Sessions =
        (\<lambda>text. Inr (Object [(''host_app'', Object riot_client_session),
                             (''valorant'', Object valorant_session)])),
      parse_EntitlementsToken = (\<lambda>text. Inr (Object example_entitlements)),
      render_number = (\<lambda>text. ''NaN'')\<rparr>"




text \<open>
  The same machine with a service whose answers are the JSON value \<open>null\<close>, and one
  whose answers are objects without the properties that the class reads.
\<close>

definition null_answers_env :: env where
  "null_answers_env =
     example_env
       \<lparr>parse_ChatSession := (\<lambda>text. Inr Null),
        parse_Sessions := (\<lambda>text. Inr Null),
        parse_EntitlementsToken := (\<lambda>text. Inr Null)\<rparr>"

definition bare_session :: Session where
  "bare_session =
     \<lparr>exitCode = None, exitReason = None, isInternal = None, launchConfiguration = None,
      patchlineFullName = None, patchlineId = None, phase = None,
      productId = Some ''valorant'', version = None\<rparr>"

definition bare_answers_env :: env where
  "bare_answers_env =
     example_env
       \<lparr>parse_ChatSession :=
          (\<lambda>text. Inr (Object
             \<lparr>federated = None, game_name = None, game_tag = None, loaded = None,
              chat_name = None, pid = None, puuid = None, chat_region = None,
              resource = None, chat_state = None\<rparr>)),
        parse_Sessions := (\<lambda>text. Inr (Object [(''valorant'', Object bare_session)])),
        parse_EntitlementsToken :=
          (\<lambda>text. Inr (Object
             \<lparr>accessToken = None, entitlement_list = None, issuer = None, subject = None,
              token = None\<rparr>))\<rparr>"

text \<open>A resolved state that holds the session and identity of an earlier bootstrap.\<close>

definition stale :: API where
  "stale =
     resolved
       \<lparr>chatSession := Some (Object (example_chat\<lparr>puuid := Some ''uuid-0''\<rparr>)),
        entitlements :=
          Some (Object (example_entitlements
                          \<lparr>accessToken := Some ''access-0'', token := Some ''jwt-0''\<rparr>)),
        riotSessions := Some (Object [(''host_app'', Object riot_client_session)]),
        authToken := Some ''access-0'', playerUuid := Some ''uuid-0'',
        clientVersion := Some ''release-07.12'', entitlementToken := Some ''jwt-0'',
        socket := Some (WebSocket 0)\<rparr>"

section \<open>The lock file\<close>

lemma split_str_last: "sep \<notin> set a \<Longrightarrow> split_str sep a = [a]"
  by (induction a) auto

lemma split_str_field:
  "sep \<notin> set a \<Longrightarrow> split_str sep (a @ sep # rest) = a # split_str sep rest"
  by (induction a) auto

lemma digits_no_colon: "list_all is_digit p \<Longrightarrow> CHR '':'' \<notin> set p"
  by (auto simp: list_all_iff is_digit_def)

lemma unary_plus_digits:
  "p \<noteq> [] \<Longrightarrow> list_all is_digit p \<Longrightarrow> digits_value p \<le> 2 ^ 53
     \<Longrightarrow> unary_plus (Some p) = Integral (digits_value p)"
  by (simp add: unary_plus_def)

text \<open>
  \<open>digits_value\<close> reads a string of decimal digits as the integer it denotes: it inverts
  the decimal printing of a non-negative integer, so unary plus gives back every integer
  up to \<open>2^53\<close> from its decimal form.
\<close>

lemma digits_value_snoc:
  "digits_value (ds @ [c]) = 10 * digits_value ds + (of_char c - 48)"
  by (simp add: digits_value_def)

lemma digit_char_value:
  assumes "0 \<le> d" "d < 10"
  shows "of_char (digit_char d) - 48 = d \<and> is_digit (digit_char d)"
proof -
  have "d = 0 \<or> d = 1 \<or> d = 2 \<or> d = 3 \<or> d = 4 \<or> d = 5 \<or> d = 6 \<or> d = 7 \<or> d = 8 \<or> d = 9"
    using assms by arith
  then show ?thesis
    by (auto simp: digit_char_def is_digit_def)
qed

lemma digits_of_value:
  "0 \<le> n \<Longrightarrow> digits_value (digits_of n) = n \<and> list_all is_digit (digits_of n)
     \<and> digits_of n \<noteq> []"
proof (induction n rule: digits_of.induct)
  case (1 n)
  show ?case
  proof (cases "n < 10")
    case True
    then show ?thesis
      using "1.prems" digit_char_value [of n]
      by (simp add: digits_value_def)
  next
    case False
    then have "0 \<le> n div 10"
      using "1.prems" by simp
    then have IH: "digits_value (digits_of (n div 10)) = n div 10"
      "list_all is_digit (digits_of (n div 10))"
      using "1.IH" False by simp_all
    have "0 \<le> n mod 10" "n mod 10 < 10"
      by simp_all
    then have last: "of_char (digit_char (n mod 10)) - 48 = n mod 10"
      "is_digit (digit_char (n mod 10))"
      using digit_char_value [of "n mod 10"] by simp_all
    have "digits_of n = digits_of (n div 10) @ [digit_char (n mod 10)]"
      using False by (subst digits_of.simps) simp
    then show ?thesis
      using IH last by (simp add: digits_value_snoc)
  qed
qed

lemma unary_plus_show_int:
  "0 \<le> n \<Longrightarrow> n \<le> 2 ^ 53 \<Longrightarrow> unary_plus (Some (show_int n)) = Integral n"
  using digits_of_value [of n] by (simp add: unary_plus_def show_int_def)

text \<open>
  C3. A lock file that exists and holds five fields separated by colons, the second and
  the third a string of decimal digits (with a value that a double holds exactly, at
  most \<open>2^53\<close>): \<open>parseLockFile\<close> returns \<open>true\<close> and caches an \<open>APIInfo\<close> whose
  \<open>username\<close>, \<open>password\<close> and \<open>protocol\<close> are the first, fourth and fifth field and
  whose \<open>processId\<close> and \<open>port\<close> are the integers that the second and third field
  denote.
\<close>

theorem parseLockFile_well_formed:
  assumes content: "files env (lockFilePath env)
                      = Some (u @ '':'' @ p @ '':'' @ q @ '':'' @ pw @ '':'' @ proto)"
    and colons: "CHR '':'' \<notin> set u" "CHR '':'' \<notin> set pw" "CHR '':'' \<notin> set proto"
    and p: "p \<noteq> []" "list_all is_digit p" "digits_value p \<le> 2 ^ 53"
    and q: "q \<noteq> []" "list_all is_digit q" "digits_value q \<le> 2 ^ 53"
  shows "fst (parseLockFile env s) = True \<and>
         apiInfo (snd (parseLockFile env s))
           = Some \<lparr>username = Some u, processId = Integral (digits_value p),
                    port = Integral (digits_value q), password = Some pw,
                    protocol = Some proto\<rparr>"
proof -
  have fields:
    "split_str CHR '':'' (u @ CHR '':'' # p @ CHR '':'' # q @ CHR '':'' # pw @ CHR '':'' # proto)
       = [u, p, q, pw, proto]"
    using colons digits_no_colon [OF p(2)] digits_no_colon [OF q(2)]
    by (simp add: split_str_field split_str_last)
  show ?thesis
    using content p q
    by (simp add: parseLockFile_def Let_def fields element_def unary_plus_digits emit_def)
qed

theorem parseLockFile_well_formed_witness:
  "fst (parseLockFile example_env fresh) = True \<and>
   apiInfo (snd (parseLockFile example_env fresh))
     = Some \<lparr>username = Some ''Riot Client'', processId = Integral 1234,
              port = Integral 54321, password = Some ''secret'',
              protocol = Some ''https''\<rparr>"
  using parseLockFile_well_formed [of example_env "''Riot Client''" "''1234''" "''54321''"
      "''secret''" "''https''" fresh]
  by (simp add: lockFilePath_def example_env_def digits_value_def is_digit_def)

text \<open>
  C8, as the claim states it, fails: the content \<open>garbage\<close> has one field, and
  \<open>parseLockFile\<close> returns \<open>true\<close> with an \<open>APIInfo\<close> built from it.
\<close>

theorem parseLockFile_malformed_counterexample:
  "fst (parseLockFile (example_env\<lparr>files := (\<lambda>path. Some ''garbage'')\<rparr>) fresh) = True \<and>
   apiInfo (snd (parseLockFile (example_env\<lparr>files := (\<lambda>path. Some ''garbage'')\<rparr>) fresh))
     = Some \<lparr>username = Some ''garbage'', processId = NaN, port = NaN,
              password = None, protocol = None\<rparr>"
  by (simp add: parseLockFile_def Let_def emit_def element_def unary_plus_def)

text \<open>
  C8, amended. \<open>parseLockFile\<close> validates nothing: whatever the content of an existing
  lock file, it returns \<open>true\<close> and caches an \<open>APIInfo\<close> built from the first five
  pieces of the split, \<open>undefined\<close> where a piece is missing and unary plus applied to
  the second and third.
\<close>

theorem parseLockFile_accepts_any_content:
  assumes "files env (lockFilePath env) = Some content"
  shows "fst (parseLockFile env s) = True \<and>
         apiInfo (snd (parseLockFile env s))
           = Some \<lparr>username = element (split_str CHR '':'' content) 0,
                    processId = unary_plus (element (split_str CHR '':'' content) 1),
                    port = unary_plus (element (split_str CHR '':'' content) 2),
                    password = element (split_str CHR '':'' content) 3,
                    protocol = element (split_str CHR '':'' content) 4\<rparr>"
  using assms by (simp add: parseLockFile_def Let_def emit_def)

theorem parseLockFile_accepts_any_content_witness:
  "fst (parseLockFile (example_env\<lparr>files := (\<lambda>path. Some ''a:b:c'')\<rparr>) fresh) = True \<and>
   apiInfo (snd (parseLockFile (example_env\<lparr>files := (\<lambda>path. Some ''a:b:c'')\<rparr>) fresh))
     = Some \<lparr>username = Some ''a'', processId = ToNumber ''b'', port = ToNumber ''c'',
              password = None, protocol = None\<rparr>"
  using parseLockFile_accepts_any_content
    [of "example_env\<lparr>files := (\<lambda>path. Some ''a:b:c'')\<rparr>" "''a:b:c''" fresh]
  by (simp add: element_def unary_plus_def is_digit_def)

section \<open>The log file\<close>









section \<open>Requests\<close>

lemma requests_of_append: "requests_of (xs @ ys) = requests_of xs @ requests_of ys"
  by (induction xs rule: requests_of.induct) auto

lemma fetched_urls_append: "fetched_urls (xs @ ys) = fetched_urls xs @ fetched_urls ys"
  by (induction xs rule: fetched_urls.induct) auto


lemma default_params:
  "URLSearchParams_toString
     [(''startIndex'', ''0''), (''endIndex'', ''20''), (''queue'', ''competitive'')]
     = ''startIndex=0&endIndex=20&queue=competitive''"
  by (simp add: URLSearchParams_toString_def urlencode_def urlencode_char_def form_safe_def)

lemma fetch_eq:
  "fetch env s address options =
     (case invoke env (fetch_request address options) of
        Inl e \<Rightarrow> Inl e
      | Inr response \<Rightarrow>
          if success response then Inr response
          else Inl (Error ''Unable to complete HTTP request.''),
      emit (Invoke_fetch (fetch_request address options)) s)"
  by (simp add: fetch_def Let_def split: sum.split)

lemma remoteRequest_requests:
  "requests_of (trace (snd (remoteRequest parse env s path requestInfo args)))
     = requests_of (trace s) @
       [fetch_request
         ((if (case args of None \<Rightarrow> None | Some a \<Rightarrow> query a) = Some ''pd''
           then ''https://pd.'' @ template (shard s) @ ''.a.pvp.net''
           else ''https://glz-'' @ template (region s) @ ''-1.'' @ template (shard s) @
                ''.a.pvp.net'') @ ''/'' @ path)
         (Some (spread
            \<lparr>http_method = None,
             headers = Defined
               [(''X-Riot-ClientPlatform'', Some clientPlatform),
                (''X-Riot-ClientVersion'', clientVersion s),
                (''X-Riot-Entitlements-JWT'', entitlementToken s),
                (''Authorization'', Some (''Bearer '' @ template (authToken s)))],
             body = None\<rparr>
            requestInfo))]"
  by (simp add: remoteRequest_def fetch_eq Let_def emit_def requests_of_append split: sum.split)

text \<open>
  C5. \<open>getMatchHistory\<close> without indices and queue issues one request: to the \<open>pd\<close>
  host of the cached shard, with the query string
  \<open>startIndex=0&endIndex=20&queue=competitive\<close>, for the player given or, when no
  argument is given at all, for the cached player.
\<close>

theorem getMatchHistory_default_query:
  "requests_of (trace (snd (getMatchHistory parse env s uuid None)))
     = requests_of (trace s) @
       [\<lparr>url = ''https://pd.'' @ template (shard s) @ ''.a.pvp.net'' @
               ''/match-history/v1/history/'' @
               template (case uuid of None \<Rightarrow> playerUuid s | Some u \<Rightarrow> Some u) @
               ''?startIndex=0&endIndex=20&queue=competitive'',
         request_headers =
           Some [(''X-Riot-ClientPlatform'', Some clientPlatform),
                 (''X-Riot-ClientVersion'', clientVersion s),
                 (''X-Riot-Entitlements-JWT'', entitlementToken s),
                 (''Authorization'', Some (''Bearer '' @ template (authToken s)))],
         request_method = ''GET'',
         request_body = None\<rparr>]"
  by (simp add: getMatchHistory_def remoteRequest_requests default_params fetch_request_def
        spread_def)

lemma remoteRequest_standalone_urls:
  "fetched_urls (trace (snd (remoteRequest_standalone parse env s path requestInfo args)))
     = fetched_urls (trace s) @
       [(if (case args of None \<Rightarrow> None | Some a \<Rightarrow> query a) = Some ''pd''
         then ''https://pd.'' @ template (shard s) @ ''.a.pvp.net''
         else ''https://glz-'' @ template (region s) @ ''-1.'' @ template (shard s) @
              ''.a.pvp.net'') @ ''/'' @ path]"
  by (simp add: remoteRequest_standalone_def Let_def emit_def fetched_urls_append
        split: sum.split)

lemma remoteRequest_urls:
  "fetched_urls (trace (snd (remoteRequest parse env s path requestInfo args)))
     = fetched_urls (trace s) @
       [(if (case args of None \<Rightarrow> None | Some a \<Rightarrow> query a) = Some ''pd''
         then ''https://pd.'' @ template (shard s) @ ''.a.pvp.net''
         else ''https://glz-'' @ template (region s) @ ''-1.'' @ template (shard s) @
              ''.a.pvp.net'') @ ''/'' @ path]"
  by (simp add: remoteRequest_def fetch_eq Let_def emit_def fetched_urls_append
        fetch_request_def split: sum.split)

text \<open>
  C6. The address that \<open>remoteRequest\<close> fetches is the base host, a slash and the path.
  The base host depends on the selector (and the cached region and shard) only: \<open>"pd"\<close>
  gives \<open>https://pd.{shard}.a.pvp.net\<close>, any other selector, an absent one included, gives
  \<open>https://glz-{region}-1.{shard}.a.pvp.net\<close>.
\<close>

theorem remoteRequest_base_host:
  "map url (requests_of (trace (snd (remoteRequest parse env s path requestInfo args))))
     = map url (requests_of (trace s)) @
       [(if (case args of None \<Rightarrow> None | Some a \<Rightarrow> query a) = Some ''pd''
         then ''https://pd.'' @ template (shard s) @ ''.a.pvp.net''
         else ''https://glz-'' @ template (region s) @ ''-1.'' @ template (shard s) @
              ''.a.pvp.net'') @ ''/'' @ path]"
  by (simp add: remoteRequest_requests fetch_request_def)

text \<open>
  C10. On the same state and arguments the two variants fetch the same address (base
  host, path and query string): \<open>remoteRequest\<close> for every path, options and selector,
  \<open>getMatchHistory\<close> for every player and every window and queue argument. The
  standalone variant has no default for the player; the desktop variant called without
  one fetches what the standalone variant fetches for the cached player.
\<close>

theorem variants_build_same_address:
  "fetched_urls (trace (snd (remoteRequest parse env s path requestInfo args)))
     = fetched_urls (trace (snd (remoteRequest_standalone parse' env s path requestInfo args)))
   \<and> fetched_urls (trace (snd (getMatchHistory parse env s (Some uuid) history)))
     = fetched_urls (trace (snd (getMatchHistory_standalone parse' env s uuid history)))
   \<and> fetched_urls (trace (snd (getMatchHistory parse env s None history)))
     = fetched_urls (trace (snd (getMatchHistory_standalone parse' env s
                                   (template (playerUuid s)) history)))"
  by (simp add: getMatchHistory_def getMatchHistory_standalone_def remoteRequest_urls
        remoteRequest_standalone_urls template_def)

lemma localRequest_requests:
  assumes "apiInfo s = Some info"
  shows "requests_of (trace (snd (localRequest parse env s path requestInfo)))
     = requests_of (trace s) @
       [fetch_request
         (template (protocol info) @ ''://127.0.0.1:'' @
          number_toString (render_number env) (port info) @ ''/'' @ path)
         (Some (spread
            \<lparr>http_method = None,
             headers = Defined
               [(''Authorization'',
                 Some (''Basic '' @ btoa (''riot:'' @ template (password info))))],
             body = None\<rparr>
            requestInfo))]"
  using assms
  by (simp add: localRequest_def fetch_eq Let_def emit_def requests_of_append split: sum.split)

text \<open>
  C7, amended. With a cached \<open>APIInfo\<close>, \<open>localRequest\<close> issues one request, to
  \<open>{protocol}://127.0.0.1:{port}/{path}\<close>. It carries the Basic \<open>Authorization\<close> header for
  \<open>riot\<close> and the cached password when the options are omitted or have no \<open>headers\<close>
  property; a \<open>headers\<close> property of the options replaces that header.
\<close>

theorem localRequest_request:
  assumes "apiInfo s = Some info"
  shows "requests_of (trace (snd (localRequest parse env s path requestInfo)))
     = requests_of (trace s) @
       [\<lparr>url = template (protocol info) @ ''://127.0.0.1:'' @
               number_toString (render_number env) (port info) @ ''/'' @ path,
         request_headers =
           (case (case requestInfo of None \<Rightarrow> Absent | Some r \<Rightarrow> headers r) of
              Absent \<Rightarrow>
                Some [(''Authorization'',
                       Some (''Basic '' @ btoa (''riot:'' @ template (password info))))]
            | Undefined \<Rightarrow> None
            | Defined h \<Rightarrow> Some h),
         request_method =
           (case (case requestInfo of None \<Rightarrow> None | Some r \<Rightarrow> http_method r) of
              None \<Rightarrow> ''GET''
            | Some m \<Rightarrow> m),
         request_body = (case requestInfo of None \<Rightarrow> None | Some r \<Rightarrow> body r)\<rparr>]"
proof (cases requestInfo)
  case None
  then show ?thesis
    by (simp add: localRequest_requests [OF assms] fetch_request_def spread_def)
next
  case (Some r)
  then show ?thesis
    by (cases "headers r"; cases "http_method r"; cases "body r")
       (simp_all add: localRequest_requests [OF assms] fetch_request_def spread_def)
qed

theorem localRequest_request_witness:
  "requests_of (trace (snd (localRequest Inr example_env resolved ''help'' None)))
     = [\<lparr>url = ''https://127.0.0.1:54321/help'',
         request_headers = Some [(''Authorization'', Some ''Basic cmlvdDpzZWNyZXQ='')],
         request_method = ''GET'',
         request_body = None\<rparr>]"
  using localRequest_request [of resolved example_info Inr example_env "''help''" None]
  by (simp add: resolved_def fresh_def example_info_def template_def number_toString_def
        show_int_def digit_char_def b64_char_def)

text \<open>
  C7, as the claim states it, fails: options with \<open>headers\<close> of their own reach the
  service without the \<open>Authorization\<close> header.
\<close>

theorem localRequest_headers_counterexample:
  "requests_of (trace (snd (localRequest Inr example_env resolved ''help''
       (Some \<lparr>http_method = Some ''GET'',
              headers = Defined [(''Accept'', Some ''application/json'')],
              body = None\<rparr>))))
     = [\<lparr>url = ''https://127.0.0.1:54321/help'',
         request_headers = Some [(''Accept'', Some ''application/json'')],
         request_method = ''GET'',
         request_body = None\<rparr>]"
  by (simp add: localRequest_def fetch_eq fetch_request_def spread_def emit_def resolved_def
        fresh_def example_info_def example_env_def template_def number_toString_def
        show_int_def digit_char_def)




section \<open>\<open>setupClient\<close>\<close>




lemma connectToSocket_eq:
  assumes "apiInfo s = Some info"
  shows "connectToSocket env s =
     (case connect env
             (''wss://127.0.0.1:'' @ number_toString (render_number env) (port info))
             [(''Authorization'', ''Basic '' @ btoa (''riot:'' @ template (password info)))] of
        Inl e \<Rightarrow>
          (False,
           s\<lparr>trace := trace s @
                [Log_info ''Connecting to local websocket...'',
                 WebSocket_connect
                   (''wss://127.0.0.1:'' @ number_toString (render_number env) (port info))
                   [(''Authorization'',
                     ''Basic '' @ btoa (''riot:'' @ template (password info)))]]\<rparr>)
      | Inr sock \<Rightarrow>
          (True,
           s\<lparr>trace := trace s @
                [Log_info ''Connecting to local websocket...'',
                 WebSocket_connect
                   (''wss://127.0.0.1:'' @ number_toString (render_number env) (port info))
                   [(''Authorization'',
                     ''Basic '' @ btoa (''riot:'' @ template (password info)))]],
             socket := Some sock\<rparr>))"
  using assms by (simp add: connectToSocket_def Let_def emit_def split: sum.split)














subsection \<open>Answers of another shape\<close>

lemma example_request:
  assumes "invoke env = invoke example_env" "render_number env = render_number example_env"
    and "apiInfo s = Some example_info"
  shows "localRequest parse env s path None
           = (parse ''(json)'',
              s\<lparr>trace := trace s @
                [Invoke_fetch (fetch_request
                   (''https://127.0.0.1:54321/'' @ path)
                   (Some \<lparr>http_method = None,
                          headers = Defined
                            [(''Authorization'', Some ''Basic cmlvdDpzZWNyZXQ='')],
                          body = None\<rparr>))]\<rparr>)"
  using assms
  by (simp add: localRequest_def fetch_eq example_env_def emit_def
        example_info_def spread_def template_def number_toString_def show_int_def
        digit_char_def b64_char_def)

text \<open>
  Answers of another shape than the declared one. When the three answers are \<open>null\<close>,
  the three requests are made and the three snapshots stored, and reading
  \<open>API.entitlements.accessToken\<close> throws: the derived values and the socket are those of
  the earlier bootstrap.
\<close>

lemma setupClient_null_answers:
  "fst (setupClient null_answers_env stale) = Inl TypeError
   \<and> map url (requests_of (trace (snd (setupClient null_answers_env stale))))
       = [''https://127.0.0.1:54321/chat/v1/session'',
          ''https://127.0.0.1:54321/product-session/v1/sessions'',
          ''https://127.0.0.1:54321/entitlements/v1/token'']
   \<and> chatSession (snd (setupClient null_answers_env stale)) = Some Null
   \<and> riotSessions (snd (setupClient null_answers_env stale)) = Some Null
   \<and> entitlements (snd (setupClient null_answers_env stale)) = Some Null
   \<and> authToken (snd (setupClient null_answers_env stale)) = Some ''access-0''
   \<and> playerUuid (snd (setupClient null_answers_env stale)) = Some ''uuid-0''
   \<and> clientVersion (snd (setupClient null_answers_env stale)) = Some ''release-07.12''
   \<and> entitlementToken (snd (setupClient null_answers_env stale)) = Some ''jwt-0''
   \<and> socket (snd (setupClient null_answers_env stale)) = Some (WebSocket 0)"
proof -
  have request:
    "localRequest parse null_answers_env s path None
       = (parse ''(json)'',
          s\<lparr>trace := trace s @
            [Invoke_fetch (fetch_request
               (''https://127.0.0.1:54321/'' @ path)
               (Some \<lparr>http_method = None,
                      headers = Defined
                        [(''Authorization'', Some ''Basic cmlvdDpzZWNyZXQ='')],
                      body = None\<rparr>))]\<rparr>)"
    if "apiInfo s = Some example_info" for parse s path
    by (rule example_request) (simp_all add: null_answers_env_def that)
  have cached: "apiInfo stale = Some example_info" "region stale = Some ''na''"
    "trace stale = []" "authToken stale = Some ''access-0''"
    "playerUuid stale = Some ''uuid-0''" "clientVersion stale = Some ''release-07.12''"
    "entitlementToken stale = Some ''jwt-0''" "socket stale = Some (WebSocket 0)"
    by (simp_all add: stale_def resolved_def fresh_def)
  have parsers:
    "parse_ChatSession null_answers_env content = Inr Null"
    "parse_Sessions null_answers_env content = Inr Null"
    "parse_EntitlementsToken null_answers_env content = Inr Null"
    for content
    by (simp_all add: null_answers_env_def)
  show ?thesis
    by (simp add: setupClient_def request getChatSession_def getSessions_def
          getEntitlementsToken_def cached parsers falsy_def fetch_request_def)
qed

text \<open>
  When the answers are objects without the properties that the method reads, and the
  one session has the product identifier \<open>valorant\<close> and nothing else, the method
  returns \<open>true\<close> with the four derived values \<open>undefined\<close>.
\<close>

lemma setupClient_bare_answers:
  "fst (setupClient bare_answers_env stale) = Inr True
   \<and> authToken (snd (setupClient bare_answers_env stale)) = None
   \<and> playerUuid (snd (setupClient bare_answers_env stale)) = None
   \<and> clientVersion (snd (setupClient bare_answers_env stale)) = None
   \<and> entitlementToken (snd (setupClient bare_answers_env stale)) = None
   \<and> socket (snd (setupClient bare_answers_env stale)) = Some (WebSocket 1)"
proof -
  have request:
    "localRequest parse bare_answers_env s path None
       = (parse ''(json)'',
          s\<lparr>trace := trace s @
            [Invoke_fetch (fetch_request
               (''https://127.0.0.1:54321/'' @ path)
               (Some \<lparr>http_method = None,
                      headers = Defined
                        [(''Authorization'', Some ''Basic cmlvdDpzZWNyZXQ='')],
                      body = None\<rparr>))]\<rparr>)"
    if "apiInfo s = Some example_info" for parse s path
    by (rule example_request) (simp_all add: bare_answers_env_def that)
  have cached: "apiInfo stale = Some example_info" "region stale = Some ''na''"
    by (simp_all add: stale_def resolved_def fresh_def)
  have parsers:
    "parse_ChatSession bare_answers_env content
       = Inr (Object
           \<lparr>federated = None, game_name = None, game_tag = None, loaded = None,
            chat_name = None, pid = None, puuid = None, chat_region = None,
            resource = None, chat_state = None\<rparr>)"
    "parse_Sessions bare_answers_env content = Inr (Object [(''valorant'', Object bare_session)])"
    "parse_EntitlementsToken bare_answers_env content
       = Inr (Object
           \<lparr>accessToken = None, entitlement_list = None, issuer = None, subject = None,
            token = None\<rparr>)"
    "connect bare_answers_env address hs = Inr (WebSocket 1)"
    for content address hs
    by (simp_all add: bare_answers_env_def example_env_def)
  have session: "is_valorant (Object bare_session) = Inr True" "version bare_session = None"
    by (simp_all add: is_valorant_def bare_session_def)
  show ?thesis
    by (simp add: setupClient_def request getChatSession_def getSessions_def
          getEntitlementsToken_def cached parsers session falsy_def emit_def
          connectToSocket_eq [of _ example_info])
qed

text \<open>
  A \<open>null\<close> entry of the session list throws when \<open>find\<close> reaches it, and is not
  looked at when a \<open>valorant\<close> session comes before it.
\<close>

lemma array_find_null_entry:
  "array_find is_valorant (Null # xs) = Inl TypeError"
  "productId v = Some ''valorant''
     \<Longrightarrow> array_find is_valorant (Object v # Null # xs) = Inr (Some (Object v))"
  by (simp_all add: is_valorant_def)

subsection \<open>The outcomes\<close>








end
